theory Spec2Isabelle
  imports Main
begin

section \<open>Values shared by the handlers and the middleware\<close>

text \<open>
  JSON values as the handlers pass them to \<open>res.json\<close>: strings, numbers and objects
  (an object keeps its keys in the order the source writes them).
\<close>

datatype json = JString string | JNumber nat | JObject "(string \<times> json) list"

text \<open>The object \<open>{ message: m }\<close> that every error response of the source carries.\<close>

definition message :: "string \<Rightarrow> json" where
  "message m = JObject [(''message'', JString m)]"

text \<open>
  A JavaScript exception (or the rejection of the promise of an \<open>async\<close> function):
  the \<open>TypeError\<close> of calling something that is not a function, and an \<open>Error\<close>
  raised by a collaborator, with its message.
\<close>

datatype js_error = TypeError string | Error string

fun err_message :: "js_error \<Rightarrow> string" where
  "err_message (TypeError m) = m"
| "err_message (Error m) = m"

text \<open>What a handler has sent: the status set by \<open>res.status\<close> (200 when the
  handler never calls it) and the body given to \<open>res.json\<close>.\<close>

record response =
  status :: nat
  body :: json

section \<open>Strings\<close>

text \<open>
  JavaScript's \<open>s.split(sep)\<close> for a one-character separator: the pieces between the
  occurrences of \<open>sep\<close>, empty pieces included; the empty string gives one empty piece.
\<close>

fun split :: "char \<Rightarrow> string \<Rightarrow> string list" where
  "split sep [] = [[]]"
| "split sep (c # cs) =
     (if c = sep then [] # split sep cs
      else (case split sep cs of [] \<Rightarrow> [[c]] | w # ws \<Rightarrow> (c # w) # ws))"

text \<open>\<open>xs[i]\<close> of JavaScript: \<open>undefined\<close> (here \<open>None\<close>) out of range.\<close>

definition at_index :: "'a list \<Rightarrow> nat \<Rightarrow> 'a option" where
  "at_index xs i = (if i < length xs then Some (xs ! i) else None)"

text \<open>\<open>!s\<close> for a value that is a string or \<open>undefined\<close>: both \<open>undefined\<close> and
  the empty string are falsy.\<close>

definition falsy :: "string option \<Rightarrow> bool" where
  "falsy v = (case v of None \<Rightarrow> True | Some s \<Rightarrow> s = [])"

text \<open>\<open>v || d\<close> for such a value and a string default.\<close>

definition or_default :: "string option \<Rightarrow> string \<Rightarrow> string" where
  "or_default v d = (case v of None \<Rightarrow> d | Some s \<Rightarrow> (if s = [] then d else s))"

section \<open>The token service\<close>

text \<open>
  The payload of a token: the claims \<open>{id, email}\<close> that login signs, and the
  issued-at and expiry times (in seconds) that signing adds.
\<close>

record claims =
  c_id :: nat
  c_email :: string

record jwt_payload = claims +
  iat :: nat
  expiry :: nat

text \<open>Why verification refuses a token: the four failures that section 4.2 of the
  specification names.\<close>

datatype jwt_failure = MissingToken | MalformedToken | ExpiredToken | InvalidSignature

text \<open>
  Modelled from the spec: the token service is the \<open>jsonwebtoken\<close> package, which is
  not among the sources. Section 4.2: \<open>issue\<close> serializes the claims plus issued-at and
  expiry, signs with the secret and returns an opaque string; \<open>verify\<close> checks signature
  and expiry and on success returns the claims. Section 3: a token is valid if and only
  if its signature verifies against the secret and the current time is before its expiry.

  The string is \<open>header.payload.signature\<close>. Numbers are written in binary (least
  significant bit first); strings are written with the characters that separate parts
  escaped, so that a token holds no space, and no dot or comma other than its separators.
  The signature is the ideal one of a symbolic model: it determines, and is determined by,
  the key and the signed text. The clock counts whole seconds.
\<close>

fun wire_nat :: "nat \<Rightarrow> string" where
  "wire_nat n =
     (if n = 0 then []
      else (if odd n then CHR ''1'' else CHR ''0'') # wire_nat (n div 2))"

declare wire_nat.simps [simp del]

fun unwire_nat :: "string \<Rightarrow> nat option" where
  "unwire_nat [] = Some 0"
| "unwire_nat (c # cs) =
     (case unwire_nat cs of
        None \<Rightarrow> None
      | Some m \<Rightarrow>
          (if c = CHR ''1'' then Some (2 * m + 1)
           else if c = CHR ''0'' then Some (2 * m)
           else None))"

definition reserved :: "char set" where
  "reserved = {CHR '' '', CHR ''.'', CHR '','', CHR ''~'', CHR ''%''}"

definition escape :: "char \<Rightarrow> string" where
  "escape c =
     (if c = CHR '' '' then ''%s''
      else if c = CHR ''.'' then ''%d''
      else if c = CHR '','' then ''%c''
      else if c = CHR ''~'' then ''%t''
      else if c = CHR ''%'' then ''%p''
      else [c])"

definition unescape :: "char \<Rightarrow> char option" where
  "unescape c =
     (if c = CHR ''s'' then Some CHR '' ''
      else if c = CHR ''d'' then Some CHR ''.''
      else if c = CHR ''c'' then Some CHR '',''
      else if c = CHR ''t'' then Some CHR ''~''
      else if c = CHR ''p'' then Some CHR ''%''
      else None)"

fun wire_str :: "string \<Rightarrow> string" where
  "wire_str [] = []"
| "wire_str (c # cs) = escape c @ wire_str cs"

fun unwire_str :: "string \<Rightarrow> string option" where
  "unwire_str [] = Some []"
| "unwire_str [c] = (if c \<in> reserved then None else Some [c])"
| "unwire_str (c # d # cs) =
     (if c = CHR ''%'' then
        (case unescape d of
           None \<Rightarrow> None
         | Some x \<Rightarrow> map_option ((#) x) (unwire_str cs))
      else if c \<in> reserved then None
      else map_option ((#) c) (unwire_str (d # cs)))"

definition jwt_header :: string where
  "jwt_header = ''HS256''"

definition encode_payload :: "jwt_payload \<Rightarrow> string" where
  "encode_payload p =
     wire_nat (c_id p) @ '','' @ wire_str (c_email p) @ '','' @
     wire_nat (iat p) @ '','' @ wire_nat (expiry p)"

definition decode_payload :: "string \<Rightarrow> jwt_payload option" where
  "decode_payload s =
     (case split CHR '','' s of
        [a, b, c, d] \<Rightarrow>
          (case (unwire_nat a, unwire_str b, unwire_nat c, unwire_nat d) of
             (Some i, Some e, Some t, Some x) \<Rightarrow>
               Some \<lparr>c_id = i, c_email = e, iat = t, expiry = x\<rparr>
           | _ \<Rightarrow> None)
      | _ \<Rightarrow> None)"

definition hmac :: "string \<Rightarrow> string \<Rightarrow> string" where
  "hmac key text = wire_str key @ ''~'' @ text"

text \<open>
  Modelled from the spec: \<open>jwt.sign(claims, secret, {expiresIn})\<close> of that package at
  clock \<open>now\<close>, with \<open>expiresIn\<close> in seconds: the claims, the issued-at time and
  the expiry, serialized and signed.
\<close>

definition jwt_sign :: "claims \<Rightarrow> string \<Rightarrow> nat \<Rightarrow> nat \<Rightarrow> string" where
  "jwt_sign c secret expiresIn now =
     (let p = encode_payload
                \<lparr>c_id = c_id c, c_email = c_email c, iat = now, expiry = now + expiresIn\<rparr>
      in jwt_header @ ''.'' @ p @ ''.'' @ hmac secret p)"

text \<open>
  Modelled from the spec: \<open>jwt.verify(token, secret)\<close> of that package at clock
  \<open>now\<close>: the decoded payload when the signature verifies against the secret and the
  clock is before the expiry, otherwise the failure that the package throws.
\<close>

definition jwt_verify :: "string \<Rightarrow> string \<Rightarrow> nat \<Rightarrow> jwt_failure + jwt_payload" where
  "jwt_verify token secret now =
     (if token = [] then Inl MissingToken
      else
        (case split CHR ''.'' token of
           [h, p, s] \<Rightarrow>
             (case decode_payload p of
                None \<Rightarrow> Inl MalformedToken
              | Some payload \<Rightarrow>
                  if h = jwt_header \<and> s = hmac secret p
                  then (if expiry payload \<le> now then Inl ExpiredToken else Inr payload)
                  else Inl InvalidSignature)
         | _ \<Rightarrow> Inl MalformedToken))"

section \<open>The auth middleware\<close>

text \<open>
  \<open>const SECRET = process.env.JWT_SECRET || 'chaewon'\<close>; the argument is the value
  of the environment variable when the module is loaded (\<open>None\<close> when it is not set).
\<close>

definition middleware_SECRET :: "string option \<Rightarrow> string" where
  "middleware_SECRET env = or_default env ''chaewon''"

text \<open>
  How a run of the middleware ends: it has sent a response, it has set \<open>req.user\<close>
  to the decoded payload and called \<open>next\<close> (the continuation of the framework, which
  hands the errors of later stages to the error handler and not back to its caller), or an
  exception has left it.
\<close>

datatype mw_outcome = Responded response | NextCalled jwt_payload | Threw js_error

text \<open>
  \<open>authenticate(req, res, next)\<close>, from the environment's secret, the clock and the
  request's \<open>Authorization\<close> header (\<open>None\<close> when the request has none). In the
  branch of the missing token the source calls \<open>res.status(401).jjson\<close>, which is not a
  method of the response: the call throws a \<open>TypeError\<close> outside the \<open>try\<close> block,
  after the status has been set and before anything is sent.
\<close>

definition authenticate :: "string option \<Rightarrow> nat \<Rightarrow> string option \<Rightarrow> mw_outcome" where
  "authenticate env now authHeader =
     (if falsy authHeader
      then Responded \<lparr>status = 401, body = message ''No token provided''\<rparr>
      else
        (let token = at_index (split CHR '' '' (the authHeader)) 1 in
         if falsy token
         then Threw (TypeError ''res.status(...).jjson is not a function'')
         else
           (case jwt_verify (the token) (middleware_SECRET env) now of
              Inr decoded \<Rightarrow> NextCalled decoded
            | Inl err \<Rightarrow> Responded \<lparr>status = 401, body = message ''Invalid token''\<rparr>)))"

section \<open>The auth handlers\<close>

text \<open>
  Modelled from the spec: the password hasher is the \<open>bcryptjs\<close> package, which is
  not among the sources. Section 4.1: \<open>hash\<close> produces a salted one-way hash, the salt
  chosen anew by each call (here an argument); \<open>verify\<close> is true for the hashed
  plaintext and false on any mismatch. The hash is the ideal one of a symbolic model: a
  value that only comparison can inspect.
\<close>

datatype pwhash = Hashed nat string string

definition bcrypt_hash :: "string \<Rightarrow> nat \<Rightarrow> string \<Rightarrow> pwhash" where
  "bcrypt_hash password rounds salt = Hashed rounds salt password"

fun bcrypt_compare :: "string \<Rightarrow> pwhash \<Rightarrow> bool" where
  "bcrypt_compare password (Hashed rounds salt plain) = (plain = password)"

record user =
  u_id :: nat
  u_name :: string
  u_email :: string
  u_password :: pwhash

text \<open>
  Modelled from the spec: the \<open>User\<close> model of \<open>models/index.js\<close> is not among the
  sources. Section 6: the credential store gives \<open>findByEmail(email) -> User|null\<close>
  and \<open>create({name,email,passwordHash}) -> User\<close>; section 7 names its unexpected
  failure. The table holds the rows in insertion order and the next identifier;
  \<open>outage\<close> is the message of the error that every call raises while the store is
  unreachable (\<open>None\<close> when it is reachable).
\<close>

record user_table =
  rows :: "user list"
  next_id :: nat
  outage :: "string option"

definition findOne :: "user_table \<Rightarrow> string \<Rightarrow> js_error + user option" where
  "findOne tbl email =
     (case outage tbl of
        Some m \<Rightarrow> Inl (Error m)
      | None \<Rightarrow> Inr (find (\<lambda>u. u_email u = email) (rows tbl)))"

definition create :: "user_table \<Rightarrow> string \<Rightarrow> string \<Rightarrow> pwhash \<Rightarrow> js_error + user \<times> user_table" where
  "create tbl name email password =
     (case outage tbl of
        Some m \<Rightarrow> Inl (Error m)
      | None \<Rightarrow>
          (let u = \<lparr>u_id = next_id tbl, u_name = name, u_email = email, u_password = password\<rparr>
           in Inr (u, tbl\<lparr>rows := rows tbl @ [u], next_id := Suc (next_id tbl)\<rparr>)))"

text \<open>\<open>const SECRET = process.env.JWT_SECRET || "IamJack21"\<close> of the controller.\<close>

definition controller_SECRET :: "string option \<Rightarrow> string" where
  "controller_SECRET env = or_default env ''IamJack21''"

text \<open>The \<open>expiresIn: "1h"\<close> of login, in seconds.\<close>

definition one_hour :: nat where
  "one_hour = 3600"

text \<open>The object \<open>{ id: user.id, email: user.email }\<close> of both handlers.\<close>

definition public_user :: "user \<Rightarrow> json" where
  "public_user u = JObject [(''id'', JNumber (u_id u)), (''email'', JString (u_email u))]"

text \<open>
  \<open>register(req, res)\<close>: from the salt that hashing draws, the table and the three
  fields of the request body, the response sent (or the error that rejects the handler's
  promise: the handler has no \<open>try\<close>) and the table afterwards.
\<close>

definition register :: "string \<Rightarrow> user_table \<Rightarrow> string \<Rightarrow> string \<Rightarrow> string \<Rightarrow> (js_error + response) \<times> user_table" where
  "register salt tbl name email password =
     (case findOne tbl email of
        Inl err \<Rightarrow> (Inl err, tbl)
      | Inr (Some exists) \<Rightarrow>
          (Inr \<lparr>status = 400, body = message ''Email already exists''\<rparr>, tbl)
      | Inr None \<Rightarrow>
          (let hashedPassword = bcrypt_hash password 10 salt in
           case create tbl name email hashedPassword of
             Inl err \<Rightarrow> (Inl err, tbl)
           | Inr (user, tbl') \<Rightarrow>
               (Inr \<lparr>status = 201,
                     body = JObject [(''message'', JString ''User registered''),
                                     (''user'', public_user user)]\<rparr>, tbl')))"

text \<open>
  \<open>login(req, res)\<close>: from the environment's secret, the clock, the table and the two
  fields of the request body, the response sent or the error that rejects the promise.
\<close>

definition login :: "string option \<Rightarrow> nat \<Rightarrow> user_table \<Rightarrow> string \<Rightarrow> string \<Rightarrow> js_error + response" where
  "login env now tbl email password =
     (case findOne tbl email of
        Inl err \<Rightarrow> Inl err
      | Inr None \<Rightarrow> Inr \<lparr>status = 404, body = message ''User not found''\<rparr>
      | Inr (Some user) \<Rightarrow>
          (let valid = bcrypt_compare password (u_password user) in
           if \<not> valid
           then Inr \<lparr>status = 401, body = message ''Invalid email or password''\<rparr>
           else
             (let token = jwt_sign \<lparr>c_id = u_id user, c_email = u_email user\<rparr>
                            (controller_SECRET env) one_hour now
              in Inr \<lparr>status = 200,
                       body = JObject [(''token'', JString token),
                                       (''user'', public_user user)]\<rparr>)))"

section \<open>The course handlers\<close>

text \<open>
  \<open>createCourse(req, res)\<close>; the argument is the outcome of
  \<open>db.Course.create(req.body)\<close>, the created course or the error it raises. The
  handler's \<open>catch\<close> turns the error into a response.
\<close>

definition createCourse :: "js_error + json \<Rightarrow> js_error + response" where
  "createCourse created =
     (case created of
        Inr course \<Rightarrow> Inr \<lparr>status = 201, body = course\<rparr>
      | Inl err \<Rightarrow> Inr \<lparr>status = 500, body = JObject [(''error'', JString (err_message err))]\<rparr>)"

section \<open>Facts about strings and the token format\<close>

lemma escape_plain: "c \<notin> reserved \<Longrightarrow> escape c = [c]"
  by (simp add: escape_def reserved_def)

lemma escape_reserved:
  "c \<in> reserved \<Longrightarrow> \<exists>x. escape c = [CHR ''%'', x] \<and> unescape x = Some c"
  by (auto simp: escape_def unescape_def reserved_def)

lemma percent_reserved: "CHR ''%'' \<in> reserved"
  by (simp add: reserved_def)

lemma escape_chars:
  "x \<in> set (escape c) \<Longrightarrow> x \<noteq> CHR '' '' \<and> x \<noteq> CHR ''.'' \<and> x \<noteq> CHR '','' \<and> x \<noteq> CHR ''~''"
  by (auto simp: escape_def split: if_splits)

lemma split_no_sep: "sep \<notin> set s \<Longrightarrow> split sep s = [s]"
proof (induction s)
  case Nil
  show ?case by simp
next
  case (Cons c cs)
  then have "c \<noteq> sep" and "split sep cs = [cs]" by auto
  then show ?case by simp
qed

lemma split_append: "sep \<notin> set a \<Longrightarrow> split sep (a @ sep # b) = a # split sep b"
proof (induction a)
  case Nil
  show ?case by simp
next
  case (Cons c cs)
  then have "c \<noteq> sep" and "split sep (cs @ sep # b) = cs # split sep b" by auto
  then show ?case by simp
qed

lemma wire_nat_chars: "x \<in> set (wire_nat n) \<Longrightarrow> x = CHR ''0'' \<or> x = CHR ''1''"
proof (induction n rule: wire_nat.induct)
  case (1 n)
  show ?case
  proof (cases "n = 0")
    case True
    with "1.prems" show ?thesis by (simp add: wire_nat.simps)
  next
    case False
    with "1.prems" have "x = CHR ''0'' \<or> x = CHR ''1'' \<or> x \<in> set (wire_nat (n div 2))"
      by (subst (asm) wire_nat.simps) (auto split: if_splits)
    with False "1.IH" show ?thesis by blast
  qed
qed

lemma unwire_wire_nat: "unwire_nat (wire_nat n) = Some n"
proof (induction n rule: wire_nat.induct)
  case (1 n)
  show ?case
  proof (cases "n = 0")
    case True
    then show ?thesis by (simp add: wire_nat.simps)
  next
    case False
    with 1 have "unwire_nat (wire_nat (n div 2)) = Some (n div 2)" by simp
    with False show ?thesis
      by (subst wire_nat.simps) (auto elim: oddE)
  qed
qed

lemma wire_str_chars:
  "x \<in> set (wire_str s) \<Longrightarrow> x \<noteq> CHR '' '' \<and> x \<noteq> CHR ''.'' \<and> x \<noteq> CHR '','' \<and> x \<noteq> CHR ''~''"
proof (induction s)
  case Nil
  then show ?case by simp
next
  case (Cons c cs)
  then have "x \<in> set (escape c) \<or> x \<in> set (wire_str cs)" by simp
  with Cons.IH escape_chars [of x c] show ?case by blast
qed

lemma unwire_str_step: "unwire_str (escape c @ r) = map_option ((#) c) (unwire_str r)"
proof (cases "c \<in> reserved")
  case True
  then obtain x where "escape c = [CHR ''%'', x]" and "unescape x = Some c"
    using escape_reserved by blast
  then show ?thesis by simp
next
  case False
  then have e: "escape c = [c]" by (rule escape_plain)
  from False percent_reserved have n: "c \<noteq> CHR ''%''" by blast
  show ?thesis
  proof (cases r)
    case Nil
    with False e show ?thesis by simp
  next
    case (Cons d ds)
    with False e n show ?thesis by simp
  qed
qed

lemma unwire_wire_str: "unwire_str (wire_str s) = Some s"
  by (induction s) (simp_all add: unwire_str_step del: unwire_str.simps(3))

lemma encode_payload_chars:
  assumes "x \<in> set (encode_payload p)"
  shows "x \<noteq> CHR '' '' \<and> x \<noteq> CHR ''.'' \<and> x \<noteq> CHR ''~''"
proof -
  from assms have "x = CHR '','' \<or> (\<exists>n. x \<in> set (wire_nat n)) \<or> (\<exists>s. x \<in> set (wire_str s))"
    unfolding encode_payload_def by auto
  then show ?thesis
  proof (elim disjE exE)
    assume "x = CHR '',''"
    then show ?thesis by simp
  next
    fix n assume "x \<in> set (wire_nat n)"
    then have "x = CHR ''0'' \<or> x = CHR ''1''" by (rule wire_nat_chars)
    then show ?thesis by auto
  next
    fix s assume "x \<in> set (wire_str s)"
    then show ?thesis using wire_str_chars by blast
  qed
qed

lemma decode_encode_payload: "decode_payload (encode_payload p) = Some p"
proof -
  have a: "CHR '','' \<notin> set (wire_nat n)" for n
    using wire_nat_chars [of "CHR '',''" n] by auto
  have b: "CHR '','' \<notin> set (wire_str s)" for s
    using wire_str_chars [of "CHR '',''" s] by auto
  have "split CHR '','' (encode_payload p) =
          [wire_nat (c_id p), wire_str (c_email p), wire_nat (iat p), wire_nat (expiry p)]"
    unfolding encode_payload_def by (simp add: split_append split_no_sep a b)
  then show ?thesis
    by (simp add: decode_payload_def unwire_wire_nat unwire_wire_str)
qed

lemma hmac_chars:
  "x \<in> set (hmac k (encode_payload p)) \<Longrightarrow> x \<noteq> CHR '' '' \<and> x \<noteq> CHR ''.''"
  using wire_str_chars [of x k] encode_payload_chars [of x p]
  by (auto simp: hmac_def)

lemma hmac_inject: "hmac k t = hmac k' t \<Longrightarrow> k = k'"
proof -
  assume "hmac k t = hmac k' t"
  then have "wire_str k = wire_str k'" by (simp add: hmac_def)
  then have "unwire_str (wire_str k) = unwire_str (wire_str k')" by simp
  then show "k = k'" by (simp add: unwire_wire_str)
qed

lemma jwt_sign_parts:
  "split CHR ''.'' (jwt_sign c k e t) =
     [jwt_header,
      encode_payload \<lparr>c_id = c_id c, c_email = c_email c, iat = t, expiry = t + e\<rparr>,
      hmac k (encode_payload \<lparr>c_id = c_id c, c_email = c_email c, iat = t, expiry = t + e\<rparr>)]"
proof -
  let ?p = "encode_payload \<lparr>c_id = c_id c, c_email = c_email c, iat = t, expiry = t + e\<rparr>"
  have h: "CHR ''.'' \<notin> set jwt_header" by (simp add: jwt_header_def)
  have p: "CHR ''.'' \<notin> set ?p" using encode_payload_chars by blast
  have s: "CHR ''.'' \<notin> set (hmac k ?p)" using hmac_chars by blast
  have "jwt_sign c k e t = jwt_header @ CHR ''.'' # (?p @ CHR ''.'' # hmac k ?p)"
    by (simp add: jwt_sign_def Let_def)
  then show ?thesis
    by (simp only: split_append [OF h] split_append [OF p] split_no_sep [OF s])
qed

lemma jwt_sign_nonempty: "jwt_sign c k e t \<noteq> []"
  by (simp add: jwt_sign_def jwt_header_def Let_def)

lemma jwt_verify_sign:
  "jwt_verify (jwt_sign c k e t) k' now =
     (if k' \<noteq> k then Inl InvalidSignature
      else if t + e \<le> now then Inl ExpiredToken
      else Inr \<lparr>c_id = c_id c, c_email = c_email c, iat = t, expiry = t + e\<rparr>)"
proof -
  have "k' \<noteq> k \<Longrightarrow> hmac k p \<noteq> hmac k' p" for p
    using hmac_inject by blast
  then show ?thesis
    by (simp add: jwt_verify_def jwt_sign_parts jwt_sign_nonempty decode_encode_payload)
qed

lemma jwt_sign_no_space: "CHR '' '' \<notin> set (jwt_sign c k e t)"
proof -
  have h: "CHR '' '' \<notin> set jwt_header" by (simp add: jwt_header_def)
  have p: "CHR '' '' \<notin> set (encode_payload q)" for q using encode_payload_chars by blast
  have s: "CHR '' '' \<notin> set (hmac k (encode_payload q))" for q using hmac_chars by blast
  show ?thesis by (simp add: jwt_sign_def Let_def h p s)
qed

section \<open>Facts about the middleware and the handlers\<close>

lemma authenticate_segments:
  assumes w: "CHR '' '' \<notin> set w" and t: "CHR '' '' \<notin> set t" and n: "t \<noteq> []"
  shows "authenticate env now (Some (w @ CHR '' '' # t)) =
           (case jwt_verify t (middleware_SECRET env) now of
              Inr decoded \<Rightarrow> NextCalled decoded
            | Inl err \<Rightarrow> Responded \<lparr>status = 401, body = message ''Invalid token''\<rparr>)"
proof -
  have "split CHR '' '' (w @ CHR '' '' # t) = [w, t]"
    by (simp add: split_append [OF w] split_no_sep [OF t])
  then have "at_index (split CHR '' '' (w @ CHR '' '' # t)) 1 = Some t"
    by (simp add: at_index_def)
  with n show ?thesis
    by (simp add: authenticate_def falsy_def)
qed

lemma bearer_no_space: "CHR '' '' \<notin> set ''Bearer''"
  by simp

lemma authenticate_issued:
  "authenticate env now (Some (''Bearer '' @ jwt_sign c k e t)) =
     (if middleware_SECRET env \<noteq> k \<or> t + e \<le> now
      then Responded \<lparr>status = 401, body = message ''Invalid token''\<rparr>
      else NextCalled \<lparr>c_id = c_id c, c_email = c_email c, iat = t, expiry = t + e\<rparr>)"
proof -
  have "''Bearer '' @ jwt_sign c k e t = ''Bearer'' @ CHR '' '' # jwt_sign c k e t"
    by simp
  then show ?thesis
    by (simp only: authenticate_segments [OF bearer_no_space jwt_sign_no_space jwt_sign_nonempty]
          jwt_verify_sign) simp
qed

lemma login_ok:
  assumes "login env t tbl email password = Inr r" and "status r = 200"
  shows "\<exists>u. findOne tbl email = Inr (Some u) \<and> bcrypt_compare password (u_password u) \<and>
           body r = JObject [(''token'', JString (jwt_sign \<lparr>c_id = u_id u, c_email = u_email u\<rparr>
                                 (controller_SECRET env) one_hour t)),
                             (''user'', public_user u)]"
  using assms
  by (auto simp: login_def Let_def split: sum.splits option.splits if_splits)

lemma secrets_absent:
  "controller_SECRET None = ''IamJack21''" "middleware_SECRET None = ''chaewon''"
  by (simp_all add: controller_SECRET_def middleware_SECRET_def or_default_def)

lemma header_token:
  assumes "CHR '' '' \<notin> set w" and "CHR '' '' \<notin> set t"
  shows "at_index (split CHR '' '' (w @ CHR '' '' # t)) 1 = Some t"
  by (simp add: split_append [OF assms(1)] split_no_sep [OF assms(2)] at_index_def)

lemma jwt_verify_empty: "jwt_verify [] k now = Inl MissingToken"
  by (simp add: jwt_verify_def)

lemma find_appended:
  "find P xs = None \<Longrightarrow> P u \<Longrightarrow> find P (xs @ [u]) = Some u"
  by (induction xs) (auto split: if_splits)

section \<open>The claims of the specification\<close>

text \<open>
  C1. When \<open>JWT_SECRET\<close> is absent the controller signs with \<open>IamJack21\<close> and the
  middleware verifies with \<open>chaewon\<close>; the two defaults differ, so the token of every
  successful login is refused by the middleware, at any time, with 401 "Invalid token".
\<close>
theorem default_secrets_reject:
  assumes "login None t tbl email password =
             Inr \<lparr>status = 200, body = JObject [(''token'', JString token), (''user'', pu)]\<rparr>"
  shows "controller_SECRET None = ''IamJack21'' \<and> middleware_SECRET None = ''chaewon'' \<and>
         controller_SECRET None \<noteq> middleware_SECRET None \<and>
         authenticate None now (Some (''Bearer '' @ token)) =
           Responded \<lparr>status = 401, body = message ''Invalid token''\<rparr>"
proof -
  let ?r = "\<lparr>status = 200, body = JObject [(''token'', JString token), (''user'', pu)]\<rparr>"
  have "status ?r = 200" by simp
  from login_ok [OF assms this] obtain u where
    "body ?r = JObject [(''token'', JString (jwt_sign \<lparr>c_id = u_id u, c_email = u_email u\<rparr>
                                 (controller_SECRET None) one_hour t)),
                        (''user'', public_user u)]"
    by blast
  then have
    "token = jwt_sign \<lparr>c_id = u_id u, c_email = u_email u\<rparr> (controller_SECRET None) one_hour t"
    by simp
  then have "authenticate None now (Some (''Bearer '' @ token)) =
               Responded \<lparr>status = 401, body = message ''Invalid token''\<rparr>"
    by (simp only: authenticate_issued secrets_absent) simp
  then show ?thesis
    by (simp only: secrets_absent) simp
qed

theorem default_secrets_reject_witness:
  "login None 1000
     \<lparr>rows = [\<lparr>u_id = 1, u_name = ''Ra Fat'', u_email = ''RaFat@gmail.com'',
               u_password = bcrypt_hash ''RaFat21'' 10 ''salt''\<rparr>],
      next_id = 2, outage = None\<rparr>
     ''RaFat@gmail.com'' ''RaFat21'' =
     Inr \<lparr>status = 200,
          body = JObject
            [(''token'', JString (jwt_sign \<lparr>c_id = 1, c_email = ''RaFat@gmail.com''\<rparr>
                                   ''IamJack21'' one_hour 1000)),
             (''user'', public_user
                \<lparr>u_id = 1, u_name = ''Ra Fat'', u_email = ''RaFat@gmail.com'',
                 u_password = bcrypt_hash ''RaFat21'' 10 ''salt''\<rparr>)]\<rparr> \<and>
   authenticate None 1030
     (Some (''Bearer '' @ jwt_sign \<lparr>c_id = 1, c_email = ''RaFat@gmail.com''\<rparr>
                            ''IamJack21'' one_hour 1000)) =
     Responded \<lparr>status = 401, body = message ''Invalid token''\<rparr>"
proof -
  have l: "login None 1000
     \<lparr>rows = [\<lparr>u_id = 1, u_name = ''Ra Fat'', u_email = ''RaFat@gmail.com'',
               u_password = bcrypt_hash ''RaFat21'' 10 ''salt''\<rparr>],
      next_id = 2, outage = None\<rparr>
     ''RaFat@gmail.com'' ''RaFat21'' =
     Inr \<lparr>status = 200,
          body = JObject
            [(''token'', JString (jwt_sign \<lparr>c_id = 1, c_email = ''RaFat@gmail.com''\<rparr>
                                   ''IamJack21'' one_hour 1000)),
             (''user'', public_user
                \<lparr>u_id = 1, u_name = ''Ra Fat'', u_email = ''RaFat@gmail.com'',
                 u_password = bcrypt_hash ''RaFat21'' 10 ''salt''\<rparr>)]\<rparr>"
    by (simp add: login_def findOne_def bcrypt_hash_def secrets_absent)
  from default_secrets_reject [OF l, of 1030] l show ?thesis by blast
qed

text \<open>
  C8. A request without an \<open>Authorization\<close> header is answered 401 with
  \<open>{message: "No token provided"}\<close>, and the next stage is not called.
\<close>
theorem no_header_no_token_provided:
  "authenticate env now None =
     Responded \<lparr>status = 401, body = message ''No token provided''\<rparr> \<and>
   authenticate env now None \<noteq> NextCalled p"
  by (simp add: authenticate_def falsy_def)

text \<open>
  C3. A header with no token segment (\<open>Bearer\<close>, or \<open>Bearer\<close> followed by a
  space) should be answered 401 "Token missing". The source misspells \<open>json\<close> in that
  branch: the middleware throws a \<open>TypeError\<close> and sends no body.
\<close>
theorem missing_token_throws:
  "authenticate env now (Some ''Bearer'') =
     Threw (TypeError ''res.status(...).jjson is not a function'') \<and>
   authenticate env now (Some ''Bearer '') =
     Threw (TypeError ''res.status(...).jjson is not a function'')"
  by (simp add: authenticate_def falsy_def at_index_def)

text \<open>
  C7. Whenever the header has a token segment and its verification fails, for whatever
  reason, the middleware answers 401 with \<open>{message: "Invalid token"}\<close> and does not
  call the next stage; the reason does not reach the response.
\<close>
theorem verification_failure_invalid_token:
  assumes seg: "at_index (split CHR '' '' h) 1 = Some token"
    and tok: "token \<noteq> []"
    and ver: "jwt_verify token (middleware_SECRET env) now = Inl reason"
  shows "authenticate env now (Some h) =
           Responded \<lparr>status = 401, body = message ''Invalid token''\<rparr>"
proof -
  from seg have "h \<noteq> []" by (auto simp: at_index_def)
  with seg tok ver show ?thesis
    by (simp add: authenticate_def falsy_def)
qed

theorem verification_failure_invalid_token_witness:
  "jwt_verify ''abc'' (middleware_SECRET None) 0 = Inl MalformedToken \<and>
   authenticate None 0 (Some ''Bearer abc'') =
     Responded \<lparr>status = 401, body = message ''Invalid token''\<rparr> \<and>
   jwt_verify (jwt_sign \<lparr>c_id = 1, c_email = ''RaFat@gmail.com''\<rparr> ''chaewon'' one_hour 0)
     (middleware_SECRET None) 3600 = Inl ExpiredToken \<and>
   authenticate None 3600
     (Some (''Bearer '' @ jwt_sign \<lparr>c_id = 1, c_email = ''RaFat@gmail.com''\<rparr> ''chaewon'' one_hour 0)) =
     Responded \<lparr>status = 401, body = message ''Invalid token''\<rparr> \<and>
   jwt_verify (jwt_sign \<lparr>c_id = 1, c_email = ''RaFat@gmail.com''\<rparr> ''forged'' one_hour 0)
     (middleware_SECRET None) 10 = Inl InvalidSignature \<and>
   authenticate None 10
     (Some (''Bearer '' @ jwt_sign \<lparr>c_id = 1, c_email = ''RaFat@gmail.com''\<rparr> ''forged'' one_hour 0)) =
     Responded \<lparr>status = 401, body = message ''Invalid token''\<rparr>"
proof -
  let ?c = "\<lparr>c_id = 1, c_email = ''RaFat@gmail.com''\<rparr>"
  have s1: "at_index (split CHR '' '' ''Bearer abc'') 1 = Some ''abc''"
    by (simp add: at_index_def)
  have n1: "''abc'' \<noteq> []" by simp
  have v1: "jwt_verify ''abc'' (middleware_SECRET None) 0 = Inl MalformedToken"
    by (simp add: jwt_verify_def)
  have s2: "at_index (split CHR '' '' (''Bearer '' @ jwt_sign ?c k one_hour 0)) 1 =
              Some (jwt_sign ?c k one_hour 0)" for k
    using header_token [OF bearer_no_space jwt_sign_no_space] by simp
  have v2: "jwt_verify (jwt_sign ?c ''chaewon'' one_hour 0) (middleware_SECRET None) 3600 =
              Inl ExpiredToken"
    by (simp add: jwt_verify_sign secrets_absent one_hour_def)
  have v3: "jwt_verify (jwt_sign ?c ''forged'' one_hour 0) (middleware_SECRET None) 10 =
              Inl InvalidSignature"
    by (simp add: jwt_verify_sign secrets_absent)
  from verification_failure_invalid_token [OF s1 n1 v1]
    verification_failure_invalid_token [OF s2 jwt_sign_nonempty v2]
    verification_failure_invalid_token [OF s2 jwt_sign_nonempty v3]
    v1 v2 v3
  show ?thesis by blast
qed

text \<open>
  C10. The first word of the header is never inspected: with any space-free word \<open>W\<close>
  before a token that verifies under the middleware's secret, the request is authorized
  with the token's payload, exactly as with \<open>Bearer\<close>.
\<close>
theorem scheme_word_ignored:
  assumes w: "CHR '' '' \<notin> set W" and t: "CHR '' '' \<notin> set t"
    and ver: "jwt_verify t (middleware_SECRET env) now = Inr p"
  shows "authenticate env now (Some (W @ '' '' @ t)) = NextCalled p \<and>
         authenticate env now (Some (W @ '' '' @ t)) =
           authenticate env now (Some (''Bearer '' @ t))"
proof -
  from ver have n: "t \<noteq> []" by (auto simp: jwt_verify_empty)
  have a: "authenticate env now (Some (W @ CHR '' '' # t)) = NextCalled p"
    by (simp only: authenticate_segments [OF w t n] ver sum.case)
  have b: "authenticate env now (Some (''Bearer'' @ CHR '' '' # t)) = NextCalled p"
    by (simp only: authenticate_segments [OF bearer_no_space t n] ver sum.case)
  from a b show ?thesis by simp
qed

theorem scheme_word_ignored_witness:
  "CHR '' '' \<notin> set ''Basic'' \<and>
   CHR '' '' \<notin> set (jwt_sign \<lparr>c_id = 1, c_email = ''RaFat@gmail.com''\<rparr> ''chaewon'' one_hour 1000) \<and>
   jwt_verify (jwt_sign \<lparr>c_id = 1, c_email = ''RaFat@gmail.com''\<rparr> ''chaewon'' one_hour 1000)
     (middleware_SECRET None) 1200 =
     Inr \<lparr>c_id = 1, c_email = ''RaFat@gmail.com'', iat = 1000, expiry = 4600\<rparr> \<and>
   authenticate None 1200
     (Some (''Basic'' @ '' '' @
            jwt_sign \<lparr>c_id = 1, c_email = ''RaFat@gmail.com''\<rparr> ''chaewon'' one_hour 1000)) =
     NextCalled \<lparr>c_id = 1, c_email = ''RaFat@gmail.com'', iat = 1000, expiry = 4600\<rparr> \<and>
   authenticate None 1200
     (Some (''Basic'' @ '' '' @
            jwt_sign \<lparr>c_id = 1, c_email = ''RaFat@gmail.com''\<rparr> ''chaewon'' one_hour 1000)) =
   authenticate None 1200
     (Some (''Bearer '' @
            jwt_sign \<lparr>c_id = 1, c_email = ''RaFat@gmail.com''\<rparr> ''chaewon'' one_hour 1000))"
proof -
  let ?t = "jwt_sign \<lparr>c_id = 1, c_email = ''RaFat@gmail.com''\<rparr> ''chaewon'' one_hour 1000"
  have w: "CHR '' '' \<notin> set ''Basic''" by simp
  have t: "CHR '' '' \<notin> set ?t" by (rule jwt_sign_no_space)
  have v: "jwt_verify ?t (middleware_SECRET None) 1200 =
             Inr \<lparr>c_id = 1, c_email = ''RaFat@gmail.com'', iat = 1000, expiry = 4600\<rparr>"
    by (simp add: jwt_verify_sign secrets_absent one_hour_def)
  from scheme_word_ignored [OF w t v] w t v show ?thesis by blast
qed

text \<open>
  C5. Login answers 404 "User not found" when the lookup by email finds nobody, 401
  "Invalid email or password" when the password does not verify against the stored hash,
  and otherwise 200 with a token issued at that moment and the user's \<open>id\<close> and
  \<open>email\<close> only.
\<close>
theorem login_responses:
  "(findOne tbl email = Inr None \<longrightarrow>
      login env now tbl email password =
        Inr \<lparr>status = 404, body = message ''User not found''\<rparr>) \<and>
   (findOne tbl email = Inr (Some user) \<and> \<not> bcrypt_compare password (u_password user) \<longrightarrow>
      login env now tbl email password =
        Inr \<lparr>status = 401, body = message ''Invalid email or password''\<rparr>) \<and>
   (findOne tbl email = Inr (Some user) \<and> bcrypt_compare password (u_password user) \<longrightarrow>
      login env now tbl email password =
        Inr \<lparr>status = 200,
             body = JObject
               [(''token'', JString (jwt_sign \<lparr>c_id = u_id user, c_email = u_email user\<rparr>
                                      (controller_SECRET env) one_hour now)),
                (''user'', JObject [(''id'', JNumber (u_id user)),
                                    (''email'', JString (u_email user))])]\<rparr>)"
  by (simp add: login_def public_user_def)

theorem login_responses_witness:
  "findOne \<lparr>rows = [], next_id = 1, outage = None\<rparr> ''RaFat@gmail.com'' = Inr None \<and>
   login None 1000 \<lparr>rows = [], next_id = 1, outage = None\<rparr> ''RaFat@gmail.com'' ''RaFat21'' =
     Inr \<lparr>status = 404, body = message ''User not found''\<rparr> \<and>
   \<not> bcrypt_compare ''guess'' (Hashed 10 ''salt'' ''RaFat21'') \<and>
   login None 1000
     \<lparr>rows = [\<lparr>u_id = 1, u_name = ''Ra Fat'', u_email = ''RaFat@gmail.com'',
               u_password = Hashed 10 ''salt'' ''RaFat21''\<rparr>],
      next_id = 2, outage = None\<rparr>
     ''RaFat@gmail.com'' ''guess'' =
     Inr \<lparr>status = 401, body = message ''Invalid email or password''\<rparr> \<and>
   bcrypt_compare ''RaFat21'' (Hashed 10 ''salt'' ''RaFat21'') \<and>
   login None 1000
     \<lparr>rows = [\<lparr>u_id = 1, u_name = ''Ra Fat'', u_email = ''RaFat@gmail.com'',
               u_password = Hashed 10 ''salt'' ''RaFat21''\<rparr>],
      next_id = 2, outage = None\<rparr>
     ''RaFat@gmail.com'' ''RaFat21'' =
     Inr \<lparr>status = 200,
          body = JObject
            [(''token'', JString (jwt_sign \<lparr>c_id = 1, c_email = ''RaFat@gmail.com''\<rparr>
                                   ''IamJack21'' one_hour 1000)),
             (''user'', JObject [(''id'', JNumber 1), (''email'', JString ''RaFat@gmail.com'')])]\<rparr>"
proof -
  let ?u = "\<lparr>u_id = 1, u_name = ''Ra Fat'', u_email = ''RaFat@gmail.com'',
               u_password = Hashed 10 ''salt'' ''RaFat21''\<rparr>"
  let ?tbl = "\<lparr>rows = [?u], next_id = 2, outage = None\<rparr>"
  have f0: "findOne \<lparr>rows = [], next_id = 1, outage = None\<rparr> ''RaFat@gmail.com'' = Inr None"
    by (simp add: findOne_def)
  have f1: "findOne ?tbl ''RaFat@gmail.com'' = Inr (Some ?u)"
    by (simp add: findOne_def)
  have bad: "\<not> bcrypt_compare ''guess'' (u_password ?u)" by simp
  have good: "bcrypt_compare ''RaFat21'' (u_password ?u)" by simp
  from login_responses [of "\<lparr>rows = [], next_id = 1, outage = None\<rparr>" "''RaFat@gmail.com''"
      None 1000 "''RaFat21''"] f0
  have a: "login None 1000 \<lparr>rows = [], next_id = 1, outage = None\<rparr> ''RaFat@gmail.com'' ''RaFat21'' =
     Inr \<lparr>status = 404, body = message ''User not found''\<rparr>"
    by blast
  from login_responses [of ?tbl "''RaFat@gmail.com''" None 1000 "''guess''" ?u] f1 bad
  have b: "login None 1000 ?tbl ''RaFat@gmail.com'' ''guess'' =
     Inr \<lparr>status = 401, body = message ''Invalid email or password''\<rparr>"
    by blast
  from login_responses [of ?tbl "''RaFat@gmail.com''" None 1000 "''RaFat21''" ?u] f1 good
  have c: "login None 1000 ?tbl ''RaFat@gmail.com'' ''RaFat21'' =
     Inr \<lparr>status = 200,
          body = JObject
            [(''token'', JString (jwt_sign \<lparr>c_id = 1, c_email = ''RaFat@gmail.com''\<rparr>
                                   ''IamJack21'' one_hour 1000)),
             (''user'', JObject [(''id'', JNumber 1), (''email'', JString ''RaFat@gmail.com'')])]\<rparr>"
    by (simp add: secrets_absent)
  from f0 a b c show ?thesis by simp
qed

text \<open>
  C6. Register answers 400 "Email already exists" and leaves the table as it was when the
  lookup finds the email; otherwise it stores a new row whose password is the hash, answers
  201 with the user's \<open>id\<close> and \<open>email\<close> only, and a second registration of the
  same email on the resulting table is answered 400.
\<close>
theorem register_responses:
  "(findOne tbl email = Inr (Some existing) \<longrightarrow>
      register salt tbl name email password =
        (Inr \<lparr>status = 400, body = message ''Email already exists''\<rparr>, tbl)) \<and>
   (findOne tbl email = Inr None \<longrightarrow>
      (let user = \<lparr>u_id = next_id tbl, u_name = name, u_email = email,
                   u_password = bcrypt_hash password 10 salt\<rparr>;
           tbl' = tbl\<lparr>rows := rows tbl @ [user], next_id := Suc (next_id tbl)\<rparr>
       in register salt tbl name email password =
            (Inr \<lparr>status = 201,
                  body = JObject
                    [(''message'', JString ''User registered''),
                     (''user'', JObject [(''id'', JNumber (u_id user)),
                                         (''email'', JString (u_email user))])]\<rparr>, tbl') \<and>
          bcrypt_compare password (u_password user) \<and>
          register salt' tbl' name' email password' =
            (Inr \<lparr>status = 400, body = message ''Email already exists''\<rparr>, tbl')))"
proof (intro conjI impI)
  assume "findOne tbl email = Inr (Some existing)"
  then show "register salt tbl name email password =
        (Inr \<lparr>status = 400, body = message ''Email already exists''\<rparr>, tbl)"
    by (simp add: register_def)
next
  assume none: "findOne tbl email = Inr None"
  then have up: "outage tbl = None" and nf: "find (\<lambda>u. u_email u = email) (rows tbl) = None"
    by (auto simp: findOne_def split: option.splits)
  let ?user = "\<lparr>u_id = next_id tbl, u_name = name, u_email = email,
                   u_password = bcrypt_hash password 10 salt\<rparr>"
  let ?tbl = "tbl\<lparr>rows := rows tbl @ [?user], next_id := Suc (next_id tbl)\<rparr>"
  have first: "register salt tbl name email password =
            (Inr \<lparr>status = 201,
                  body = JObject
                    [(''message'', JString ''User registered''),
                     (''user'', JObject [(''id'', JNumber (u_id ?user)),
                                         (''email'', JString (u_email ?user))])]\<rparr>, ?tbl)"
    using none up by (simp add: register_def create_def public_user_def Let_def)
  have hashed: "bcrypt_compare password (u_password ?user)"
    by (simp add: bcrypt_hash_def)
  have "findOne ?tbl email = Inr (Some ?user)"
    using up find_appended [OF nf, of ?user] by (simp add: findOne_def)
  then have second: "register salt' ?tbl name' email password' =
            (Inr \<lparr>status = 400, body = message ''Email already exists''\<rparr>, ?tbl)"
    by (simp add: register_def)
  from first hashed second
  show "let user = \<lparr>u_id = next_id tbl, u_name = name, u_email = email,
                   u_password = bcrypt_hash password 10 salt\<rparr>;
           tbl' = tbl\<lparr>rows := rows tbl @ [user], next_id := Suc (next_id tbl)\<rparr>
       in register salt tbl name email password =
            (Inr \<lparr>status = 201,
                  body = JObject
                    [(''message'', JString ''User registered''),
                     (''user'', JObject [(''id'', JNumber (u_id user)),
                                         (''email'', JString (u_email user))])]\<rparr>, tbl') \<and>
          bcrypt_compare password (u_password user) \<and>
          register salt' tbl' name' email password' =
            (Inr \<lparr>status = 400, body = message ''Email already exists''\<rparr>, tbl')"
    by (simp only: Let_def)
qed

theorem register_responses_witness:
  "findOne \<lparr>rows = [], next_id = 1, outage = None\<rparr> ''RaFat@gmail.com'' = Inr None \<and>
   register ''salt'' \<lparr>rows = [], next_id = 1, outage = None\<rparr>
       ''Ra Fat'' ''RaFat@gmail.com'' ''RaFat21'' =
     (Inr \<lparr>status = 201,
           body = JObject
             [(''message'', JString ''User registered''),
              (''user'', JObject [(''id'', JNumber 1), (''email'', JString ''RaFat@gmail.com'')])]\<rparr>,
      \<lparr>rows = [\<lparr>u_id = 1, u_name = ''Ra Fat'', u_email = ''RaFat@gmail.com'',
                u_password = bcrypt_hash ''RaFat21'' 10 ''salt''\<rparr>],
       next_id = 2, outage = None\<rparr>) \<and>
   register ''pepper''
       \<lparr>rows = [\<lparr>u_id = 1, u_name = ''Ra Fat'', u_email = ''RaFat@gmail.com'',
                 u_password = bcrypt_hash ''RaFat21'' 10 ''salt''\<rparr>],
        next_id = 2, outage = None\<rparr>
       ''Impostor'' ''RaFat@gmail.com'' ''other'' =
     (Inr \<lparr>status = 400, body = message ''Email already exists''\<rparr>,
      \<lparr>rows = [\<lparr>u_id = 1, u_name = ''Ra Fat'', u_email = ''RaFat@gmail.com'',
                u_password = bcrypt_hash ''RaFat21'' 10 ''salt''\<rparr>],
       next_id = 2, outage = None\<rparr>)"
proof -
  let ?t0 = "\<lparr>rows = [], next_id = 1, outage = None\<rparr>"
  let ?u = "\<lparr>u_id = 1, u_name = ''Ra Fat'', u_email = ''RaFat@gmail.com'',
                 u_password = bcrypt_hash ''RaFat21'' 10 ''salt''\<rparr>"
  let ?t1 = "\<lparr>rows = [?u], next_id = 2, outage = None\<rparr>"
  have f0: "findOne ?t0 ''RaFat@gmail.com'' = Inr None"
    by (simp add: findOne_def)
  have f1: "findOne ?t1 ''RaFat@gmail.com'' = Inr (Some ?u)"
    by (simp add: findOne_def)
  from register_responses [where tbl = ?t0 and email = "''RaFat@gmail.com''" and salt = "''salt''"
      and name = "''Ra Fat''" and password = "''RaFat21''" and salt' = "''pepper''"
      and name' = "''Impostor''" and password' = "''other''"] f0
  have a: "register ''salt'' ?t0 ''Ra Fat'' ''RaFat@gmail.com'' ''RaFat21'' =
     (Inr \<lparr>status = 201,
           body = JObject
             [(''message'', JString ''User registered''),
              (''user'', JObject [(''id'', JNumber 1), (''email'', JString ''RaFat@gmail.com'')])]\<rparr>,
      ?t1)"
    by (simp add: Let_def)
  from register_responses [of ?t1 "''RaFat@gmail.com''" ?u "''pepper''" "''Impostor''"
      "''other''"] f1
  have b: "register ''pepper'' ?t1 ''Impostor'' ''RaFat@gmail.com'' ''other'' =
     (Inr \<lparr>status = 400, body = message ''Email already exists''\<rparr>, ?t1)"
    by blast
  from f0 a b show ?thesis by simp
qed

text \<open>
  C9. The token that login issues at clock \<open>t\<close> expires exactly one hour (3600 seconds)
  later: under the secret that signed it, verification returns the payload at every time
  before \<open>t + 1h\<close> and fails with the expiry error from \<open>t + 1h\<close> on; the middleware
  refuses it from then on whatever its secret, and, when both modules read the same secret,
  authorizes it at every earlier time. Verification reads nothing but the token, the
  secret and the clock.
\<close>
theorem token_valid_one_hour:
  assumes found: "findOne tbl email = Inr (Some user)"
    and valid: "bcrypt_compare password (u_password user)"
    and token: "token = jwt_sign \<lparr>c_id = u_id user, c_email = u_email user\<rparr>
                          (controller_SECRET env) one_hour t"
  shows "login env t tbl email password =
           Inr \<lparr>status = 200,
                body = JObject [(''token'', JString token), (''user'', public_user user)]\<rparr> \<and>
         one_hour = 60 * 60 \<and>
         jwt_verify token (controller_SECRET env) now =
           (if now < t + one_hour
            then Inr \<lparr>c_id = u_id user, c_email = u_email user, iat = t, expiry = t + one_hour\<rparr>
            else Inl ExpiredToken) \<and>
         (t + one_hour \<le> now \<longrightarrow>
            authenticate env' now (Some (''Bearer '' @ token)) =
              Responded \<lparr>status = 401, body = message ''Invalid token''\<rparr>) \<and>
         (middleware_SECRET env = controller_SECRET env \<longrightarrow>
            authenticate env now (Some (''Bearer '' @ token)) =
              (if now < t + one_hour
               then NextCalled \<lparr>c_id = u_id user, c_email = u_email user, iat = t,
                                 expiry = t + one_hour\<rparr>
               else Responded \<lparr>status = 401, body = message ''Invalid token''\<rparr>))"
proof -
  have a: "login env t tbl email password =
           Inr \<lparr>status = 200,
                body = JObject [(''token'', JString token), (''user'', public_user user)]\<rparr>"
    using found valid token by (simp add: login_def)
  have b: "one_hour = 60 * 60" by (simp add: one_hour_def)
  have c: "jwt_verify token (controller_SECRET env) now =
           (if now < t + one_hour
            then Inr \<lparr>c_id = u_id user, c_email = u_email user, iat = t, expiry = t + one_hour\<rparr>
            else Inl ExpiredToken)"
    unfolding token by (simp add: jwt_verify_sign)
  have d: "authenticate env' now (Some (''Bearer '' @ token)) =
              Responded \<lparr>status = 401, body = message ''Invalid token''\<rparr>"
    if "t + one_hour \<le> now"
    unfolding token authenticate_issued using that by simp
  have e: "authenticate env now (Some (''Bearer '' @ token)) =
              (if now < t + one_hour
               then NextCalled \<lparr>c_id = u_id user, c_email = u_email user, iat = t,
                                 expiry = t + one_hour\<rparr>
               else Responded \<lparr>status = 401, body = message ''Invalid token''\<rparr>)"
    if "middleware_SECRET env = controller_SECRET env"
    unfolding token authenticate_issued using that by simp
  from a b c d e show ?thesis by blast
qed

theorem token_valid_one_hour_witness:
  "findOne \<lparr>rows = [\<lparr>u_id = 1, u_name = ''Ra Fat'', u_email = ''RaFat@gmail.com'',
                      u_password = Hashed 10 ''salt'' ''RaFat21''\<rparr>],
             next_id = 2, outage = None\<rparr> ''RaFat@gmail.com'' =
     Inr (Some \<lparr>u_id = 1, u_name = ''Ra Fat'', u_email = ''RaFat@gmail.com'',
                u_password = Hashed 10 ''salt'' ''RaFat21''\<rparr>) \<and>
   bcrypt_compare ''RaFat21'' (Hashed 10 ''salt'' ''RaFat21'') \<and>
   middleware_SECRET (Some ''s3cret'') = controller_SECRET (Some ''s3cret'') \<and>
   jwt_verify (jwt_sign \<lparr>c_id = 1, c_email = ''RaFat@gmail.com''\<rparr> ''s3cret'' one_hour 1000)
      ''s3cret'' 4599 =
     Inr \<lparr>c_id = 1, c_email = ''RaFat@gmail.com'', iat = 1000, expiry = 4600\<rparr> \<and>
   jwt_verify (jwt_sign \<lparr>c_id = 1, c_email = ''RaFat@gmail.com''\<rparr> ''s3cret'' one_hour 1000)
      ''s3cret'' 4600 = Inl ExpiredToken \<and>
   authenticate (Some ''s3cret'') 4599
     (Some (''Bearer '' @ jwt_sign \<lparr>c_id = 1, c_email = ''RaFat@gmail.com''\<rparr> ''s3cret'' one_hour 1000)) =
     NextCalled \<lparr>c_id = 1, c_email = ''RaFat@gmail.com'', iat = 1000, expiry = 4600\<rparr> \<and>
   authenticate (Some ''s3cret'') 4601
     (Some (''Bearer '' @ jwt_sign \<lparr>c_id = 1, c_email = ''RaFat@gmail.com''\<rparr> ''s3cret'' one_hour 1000)) =
     Responded \<lparr>status = 401, body = message ''Invalid token''\<rparr>"
proof -
  let ?u = "\<lparr>u_id = 1, u_name = ''Ra Fat'', u_email = ''RaFat@gmail.com'',
               u_password = Hashed 10 ''salt'' ''RaFat21''\<rparr>"
  let ?tbl = "\<lparr>rows = [?u], next_id = 2, outage = None\<rparr>"
  let ?env = "Some ''s3cret''"
  let ?tok = "jwt_sign \<lparr>c_id = u_id ?u, c_email = u_email ?u\<rparr> (controller_SECRET ?env) one_hour 1000"
  have f: "findOne ?tbl ''RaFat@gmail.com'' = Inr (Some ?u)"
    by (simp add: findOne_def)
  have g: "bcrypt_compare ''RaFat21'' (u_password ?u)" by simp
  have k: "controller_SECRET ?env = ''s3cret''" "middleware_SECRET ?env = ''s3cret''"
    by (simp_all add: controller_SECRET_def middleware_SECRET_def or_default_def)
  have t: "?tok = ?tok" ..
  note w = token_valid_one_hour [OF f g t]
  from w [of 4599] have a:
    "jwt_verify ?tok (controller_SECRET ?env) 4599 =
       Inr \<lparr>c_id = 1, c_email = ''RaFat@gmail.com'', iat = 1000, expiry = 4600\<rparr>"
    by (simp add: one_hour_def)
  from w [of 4600] have b: "jwt_verify ?tok (controller_SECRET ?env) 4600 = Inl ExpiredToken"
    by (simp add: one_hour_def)
  from w [of 4599] k have c:
    "authenticate ?env 4599 (Some (''Bearer '' @ ?tok)) =
       NextCalled \<lparr>c_id = 1, c_email = ''RaFat@gmail.com'', iat = 1000, expiry = 4600\<rparr>"
    by (simp add: one_hour_def)
  from w [of 4601 ?env] have d:
    "authenticate ?env 4601 (Some (''Bearer '' @ ?tok)) =
       Responded \<lparr>status = 401, body = message ''Invalid token''\<rparr>"
    by (simp add: one_hour_def)
  from f g k a b c d show ?thesis by simp
qed

text \<open>
  C4. The handlers of the auth controller have no \<open>try\<close>: when the credential store
  fails, the error leaves \<open>register\<close> and \<open>login\<close> and no response is sent, whereas
  \<open>createCourse\<close> catches the error of its store and answers 500.
\<close>
theorem store_failure_propagates:
  "register ''salt'' \<lparr>rows = [], next_id = 1, outage = Some ''connect ECONNREFUSED''\<rparr>
      ''Ra Fat'' ''RaFat@gmail.com'' ''RaFat21'' =
     (Inl (Error ''connect ECONNREFUSED''),
      \<lparr>rows = [], next_id = 1, outage = Some ''connect ECONNREFUSED''\<rparr>) \<and>
   login None 0 \<lparr>rows = [], next_id = 1, outage = Some ''connect ECONNREFUSED''\<rparr>
      ''RaFat@gmail.com'' ''RaFat21'' =
     Inl (Error ''connect ECONNREFUSED'') \<and>
   createCourse (Inl (Error ''connect ECONNREFUSED'')) =
     Inr \<lparr>status = 500, body = JObject [(''error'', JString ''connect ECONNREFUSED'')]\<rparr>"
  by (simp add: register_def login_def findOne_def createCourse_def)

text \<open>
  C2. With \<open>JWT_SECRET\<close> absent, the token that a successful login returns is refused
  by the middleware on a request made at the very moment of issue.
\<close>
theorem login_token_rejected_without_JWT_SECRET:
  "login None 1700000000
     \<lparr>rows = [\<lparr>u_id = 7, u_name = ''Min'', u_email = ''min@school.edu'',
               u_password = bcrypt_hash ''s3same'' 10 ''pepper''\<rparr>],
      next_id = 8, outage = None\<rparr>
     ''min@school.edu'' ''s3same'' =
     Inr \<lparr>status = 200,
          body = JObject
            [(''token'', JString (jwt_sign \<lparr>c_id = 7, c_email = ''min@school.edu''\<rparr>
                                   ''IamJack21'' one_hour 1700000000)),
             (''user'', JObject [(''id'', JNumber 7), (''email'', JString ''min@school.edu'')])]\<rparr> \<and>
   authenticate None 1700000000
     (Some (''Bearer '' @ jwt_sign \<lparr>c_id = 7, c_email = ''min@school.edu''\<rparr>
                            ''IamJack21'' one_hour 1700000000)) =
     Responded \<lparr>status = 401, body = message ''Invalid token''\<rparr>"
proof -
  have "authenticate None 1700000000
     (Some (''Bearer '' @ jwt_sign \<lparr>c_id = 7, c_email = ''min@school.edu''\<rparr>
                            ''IamJack21'' one_hour 1700000000)) =
     Responded \<lparr>status = 401, body = message ''Invalid token''\<rparr>"
    by (simp only: authenticate_issued secrets_absent) simp
  then show ?thesis
    by (simp add: login_def findOne_def bcrypt_hash_def public_user_def secrets_absent)
qed

end
